theory Spec2Isabelle
  imports Complex_Main
begin

unbundle bit_operations_syntax

section \<open>Geometry primitives used by the window controller\<close>

text \<open>
  The program (src/main.py) is a PyQt6 application. Its geometry controller works on
  Qt's \<^verbatim>\<open>QPoint\<close> and \<^verbatim>\<open>QRect\<close> values. A \<^verbatim>\<open>QRect\<close> stores the
  coordinates of its top-left and bottom-right pixels, so \<open>width = x2 - x1 + 1\<close>; the
  setters and movers below follow Qt's documented behaviour. Coordinates are modelled as
  unbounded integers (Python's \<^verbatim>\<open>int\<close>).
\<close>

record point =
  px :: int
  py :: int

definition point_sub :: "point \<Rightarrow> point \<Rightarrow> point" where
  "point_sub a b = \<lparr>px = px a - px b, py = py a - py b\<rparr>"

definition point_add :: "point \<Rightarrow> point \<Rightarrow> point" where
  "point_add a b = \<lparr>px = px a + px b, py = py a + py b\<rparr>"

record qrect =
  x1 :: int
  y1 :: int
  x2 :: int
  y2 :: int

definition QRect :: "int \<Rightarrow> int \<Rightarrow> int \<Rightarrow> int \<Rightarrow> qrect" where
  "QRect x y w h = \<lparr>x1 = x, y1 = y, x2 = x + w - 1, y2 = y + h - 1\<rparr>"

definition rect_width :: "qrect \<Rightarrow> int" where
  "rect_width r = x2 r - x1 r + 1"

definition rect_height :: "qrect \<Rightarrow> int" where
  "rect_height r = y2 r - y1 r + 1"

definition topLeft :: "qrect \<Rightarrow> point" where
  "topLeft r = \<lparr>px = x1 r, py = y1 r\<rparr>"

definition setLeft :: "int \<Rightarrow> qrect \<Rightarrow> qrect" where
  "setLeft v r = r\<lparr>x1 := v\<rparr>"

definition setRight :: "int \<Rightarrow> qrect \<Rightarrow> qrect" where
  "setRight v r = r\<lparr>x2 := v\<rparr>"

definition setTop :: "int \<Rightarrow> qrect \<Rightarrow> qrect" where
  "setTop v r = r\<lparr>y1 := v\<rparr>"

definition setBottom :: "int \<Rightarrow> qrect \<Rightarrow> qrect" where
  "setBottom v r = r\<lparr>y2 := v\<rparr>"

definition setWidth :: "int \<Rightarrow> qrect \<Rightarrow> qrect" where
  "setWidth w r = r\<lparr>x2 := x1 r + w - 1\<rparr>"

definition setHeight :: "int \<Rightarrow> qrect \<Rightarrow> qrect" where
  "setHeight h r = r\<lparr>y2 := y1 r + h - 1\<rparr>"

text \<open>C++ integer division by two truncates toward zero.\<close>

definition half :: "int \<Rightarrow> int" where
  "half a = (if 0 \<le> a then a div 2 else - ((- a) div 2))"

definition center :: "qrect \<Rightarrow> point" where
  "center r = \<lparr>px = half (x1 r + x2 r), py = half (y1 r + y2 r)\<rparr>"

definition moveCenter :: "point \<Rightarrow> qrect \<Rightarrow> qrect" where
  "moveCenter p r =
     (let w = x2 r - x1 r;
          h = y2 r - y1 r;
          nx = px p - half w;
          ny = py p - half h
      in \<lparr>x1 = nx, y1 = ny, x2 = nx + w, y2 = ny + h\<rparr>)"

definition moveLeft :: "int \<Rightarrow> qrect \<Rightarrow> qrect" where
  "moveLeft v r = r\<lparr>x1 := v, x2 := x2 r + (v - x1 r)\<rparr>"

definition moveTop :: "int \<Rightarrow> qrect \<Rightarrow> qrect" where
  "moveTop v r = r\<lparr>y1 := v, y2 := y2 r + (v - y1 r)\<rparr>"

text \<open>\<^verbatim>\<open>QWidget.move(p)\<close> keeps the size, \<^verbatim>\<open>QWidget.resize(w, h)\<close> keeps the position.\<close>

definition move_to :: "point \<Rightarrow> qrect \<Rightarrow> qrect" where
  "move_to p r = \<lparr>x1 = px p, y1 = py p, x2 = px p + (x2 r - x1 r), y2 = py p + (y2 r - y1 r)\<rparr>"

definition resize_to :: "int \<Rightarrow> int \<Rightarrow> qrect \<Rightarrow> qrect" where
  "resize_to w h r = r\<lparr>x2 := x1 r + w - 1, y2 := y1 r + h - 1\<rparr>"

text \<open>
  Python floats are modelled by exact rationals, and \<^verbatim>\<open>int(f)\<close> truncates toward zero.
\<close>

definition py_int :: "rat \<Rightarrow> int" where
  "py_int q = (if 0 \<le> q then \<lfloor>q\<rfloor> else \<lceil>q\<rceil>)"

section \<open>Controller state\<close>

datatype cursor_shape =
  ArrowCursor | SizeHorCursor | SizeVerCursor | SizeFDiagCursor | SizeBDiagCursor

datatype error = UnboundLocalError | TypeError

text \<open>
  The fields of \<^verbatim>\<open>ImageOverlayApp\<close> read or written by the geometry code. The pixmap
  of the image widget is kept as its pixel size; the text of the title label and the
  style of the container frame are the other two things \<^verbatim>\<open>load_image\<close> writes.
\<close>

record app =
  geometry :: qrect
  pixmap :: "(int \<times> int) option"
  title :: string
  frame_transparent :: bool
  aspect_ratio :: "rat option"
  resizing :: bool
  dragging :: bool
  resize_edge :: "int option"
  resize_margin :: int
  start_pos :: "point option"
  drag_start_pos :: "point option"
  window_start_pos :: "point option"
  start_geometry :: "qrect option"
  cursor :: cursor_shape

text \<open>
  What the controller reads from its surroundings: the current heights of the title bar
  and of the bottom bar, and the available geometry of the primary screen
  (\<open>None\<close> when \<^verbatim>\<open>QApplication.primaryScreen()\<close> returns nothing).
\<close>

record env =
  title_h :: int
  bottom_h :: int
  screen :: "qrect option"

section \<open>Edge classification and cursor feedback\<close>

definition get_resize_edge :: "app \<Rightarrow> point \<Rightarrow> int" where
  "get_resize_edge s pos =
     (let x = px pos;
          y = py pos;
          w = rect_width (geometry s);
          h = rect_height (geometry s);
          m = resize_margin s;
          edge = 0;
          edge = (if x < m then edge OR 1 else if x > w - m then edge OR 2 else edge);
          edge = (if y < m then edge OR 4 else if y > h - m then edge OR 8 else edge)
      in edge)"

definition mapFromGlobal :: "app \<Rightarrow> point \<Rightarrow> point" where
  "mapFromGlobal s p = point_sub p (topLeft (geometry s))"

definition update_cursor :: "point \<Rightarrow> app \<Rightarrow> app" where
  "update_cursor pos s =
     (let edge = get_resize_edge s pos
      in if edge = 1 \<or> edge = 2 then s\<lparr>cursor := SizeHorCursor\<rparr>
         else if edge = 4 \<or> edge = 8 then s\<lparr>cursor := SizeVerCursor\<rparr>
         else if edge = 5 \<or> edge = 10 then s\<lparr>cursor := SizeFDiagCursor\<rparr>
         else if edge = 6 \<or> edge = 9 then s\<lparr>cursor := SizeBDiagCursor\<rparr>
         else s\<lparr>cursor := ArrowCursor\<rparr>)"

section \<open>Pointer events: press, move, release\<close>

definition handle_mouse_press :: "point \<Rightarrow> app \<Rightarrow> app" where
  "handle_mouse_press global_pos s =
     (let local_pos = mapFromGlobal s global_pos;
          edge = get_resize_edge s local_pos
      in if edge \<noteq> 0 then
           s\<lparr>resizing := True, resize_edge := Some edge,
             start_pos := Some global_pos, start_geometry := Some (geometry s)\<rparr>
         else
           s\<lparr>dragging := True, drag_start_pos := Some global_pos,
             window_start_pos := Some (topLeft (geometry s))\<rparr>)"

definition handle_mouse_release :: "app \<Rightarrow> app" where
  "handle_mouse_release s =
     s\<lparr>resizing := False, dragging := False, resize_edge := None, cursor := ArrowCursor\<rparr>"

section \<open>Drag-resize\<close>

text \<open>Lines 613--621 of \<^verbatim>\<open>handle_resize\<close>: the rough geometry proposed by the pointer.\<close>

definition rough_geometry :: "int \<Rightarrow> qrect \<Rightarrow> point \<Rightarrow> qrect" where
  "rough_geometry edge geo diff =
     (let new_geo = geo;
          new_geo = (if edge AND 1 \<noteq> 0 then setLeft (x1 geo + px diff) new_geo
                     else if edge AND 2 \<noteq> 0 then setRight (x2 geo + px diff) new_geo
                     else new_geo);
          new_geo = (if edge AND 4 \<noteq> 0 then setTop (y1 geo + py diff) new_geo
                     else if edge AND 8 \<noteq> 0 then setBottom (y2 geo + py diff) new_geo
                     else new_geo)
      in new_geo)"

text \<open>The chrome extents of \<^verbatim>\<open>handle_resize\<close> are the literals of lines 640--641.\<close>

definition resize_extra_w :: int where
  "resize_extra_w = 18"

definition resize_extra_h :: int where
  "resize_extra_h = 78"

text \<open>Width drives height (lines 652--655 and 678--681).\<close>

definition height_from_width :: "rat \<Rightarrow> int \<Rightarrow> int" where
  "height_from_width r w =
     (let target_content_w = w - resize_extra_w;
          target_content_w = (if target_content_w < 1 then 1 else target_content_w);
          target_content_h = of_int target_content_w / r
      in py_int (target_content_h + of_int resize_extra_h))"

text \<open>Height drives width (lines 660--663 and 689--692).\<close>

definition width_from_height :: "rat \<Rightarrow> int \<Rightarrow> int" where
  "width_from_height r h =
     (let target_content_h = h - resize_extra_h;
          target_content_h = (if target_content_h < 1 then 1 else target_content_h);
          target_content_w = of_int target_content_h * r
      in py_int (target_content_w + of_int resize_extra_w))"

text \<open>Lines 640--697: the aspect ratio enforced on the rough geometry.\<close>

definition enforce_aspect :: "int \<Rightarrow> rat \<Rightarrow> qrect \<Rightarrow> qrect \<Rightarrow> qrect" where
  "enforce_aspect edge r geo new_geo =
     (let w = rect_width new_geo;
          h = rect_height new_geo
      in if edge = 1 \<or> edge = 2 then setHeight (height_from_width r w) new_geo
         else if edge = 4 \<or> edge = 8 then setWidth (width_from_height r h) new_geo
         else
           (let delta_w = \<bar>rect_width new_geo - rect_width geo\<bar>;
                delta_h = \<bar>rect_height new_geo - rect_height geo\<bar>
            in if of_int delta_w > of_int delta_h * r then
                 (let new_h = height_from_width r w
                  in if edge AND 4 \<noteq> 0 then setTop (y2 new_geo - new_h + 1) new_geo
                     else setHeight new_h new_geo)
               else
                 (let new_w = width_from_height r h
                  in if edge AND 1 \<noteq> 0 then setLeft (x2 new_geo - new_w + 1) new_geo
                     else setWidth new_w new_geo)))"

text \<open>Lines 699--703: the minimum size check.\<close>

definition minimum_size :: "qrect \<Rightarrow> qrect" where
  "minimum_size new_geo =
     (let new_geo = (if rect_width new_geo < 100 then setWidth 100 new_geo else new_geo);
          new_geo = (if rect_height new_geo < 100 then setHeight 100 new_geo else new_geo)
      in new_geo)"

text \<open>
  \<^verbatim>\<open>handle_resize\<close>. The anchors are set by \<^verbatim>\<open>handle_mouse_press\<close> together with
  \<open>resizing\<close>; Python raises a \<^verbatim>\<open>TypeError\<close> on a \<^verbatim>\<open>None\<close> anchor. The aspect ratio
  is enforced when it is truthy: not \<^verbatim>\<open>None\<close> and not zero.
\<close>

definition handle_resize :: "point \<Rightarrow> app \<Rightarrow> error + app" where
  "handle_resize global_pos s =
     (if \<not> resizing s then Inr s
      else case (start_pos s, start_geometry s, resize_edge s) of
             (Some sp, Some geo, Some edge) \<Rightarrow>
               (let diff = point_sub global_pos sp;
                    new_geo = rough_geometry edge geo diff;
                    new_geo = (case aspect_ratio s of
                                 None \<Rightarrow> new_geo
                               | Some r \<Rightarrow> if r \<noteq> 0 then enforce_aspect edge r geo new_geo
                                           else new_geo);
                    new_geo = minimum_size new_geo
                in Inr (s\<lparr>geometry := new_geo\<rparr>))
           | _ \<Rightarrow> Inl TypeError)"

definition handle_mouse_move :: "point \<Rightarrow> app \<Rightarrow> error + app" where
  "handle_mouse_move global_pos s =
     (if resizing s then handle_resize global_pos s
      else if dragging s then
        (case (drag_start_pos s, window_start_pos s) of
           (Some dsp, Some wsp) \<Rightarrow>
             (let delta = point_sub global_pos dsp
              in Inr (s\<lparr>geometry := move_to (point_add wsp delta) (geometry s)\<rparr>))
         | _ \<Rightarrow> Inl TypeError)
      else
        (let local_pos = mapFromGlobal s global_pos
         in Inr (update_cursor local_pos s)))"

text \<open>A gesture is a sequence of pointer events, handled in arrival order.\<close>

datatype event = Press point | Move point | Release

fun dispatch :: "event \<Rightarrow> app \<Rightarrow> error + app" where
  "dispatch (Press p) s = Inr (handle_mouse_press p s)"
| "dispatch (Move p) s = handle_mouse_move p s"
| "dispatch Release s = Inr (handle_mouse_release s)"

fun run_events :: "event list \<Rightarrow> app \<Rightarrow> error + app" where
  "run_events [] s = Inr s"
| "run_events (ev # evs) s =
     (case dispatch ev s of Inl err \<Rightarrow> Inl err | Inr s' \<Rightarrow> run_events evs s')"

section \<open>Image load and rotation\<close>

text \<open>
  Lines 386--393 of \<^verbatim>\<open>load_image\<close> and lines 454--458 of \<^verbatim>\<open>rotate_image\<close>
  compute the chrome extents from the current widget heights in the same way.
\<close>

definition chrome_extra_w :: int where
  "chrome_extra_w = 18"

definition chrome_extra_h :: "env \<Rightarrow> int" where
  "chrome_extra_h e =
     (let title_h = title_h e;
          bottom_h = bottom_h e;
          bottom_h = (if bottom_h < 35 then 35 else bottom_h)
      in title_h + bottom_h + 18)"

text \<open>\<^verbatim>\<open>os.path.basename\<close> (POSIX): what follows the last slash.\<close>

definition basename :: "string \<Rightarrow> string" where
  "basename path = rev (takeWhile (\<lambda>c. c \<noteq> CHR ''/'') (rev path))"

text \<open>Lines 397--428: fit the image into 85 percent of the screen and center the window.\<close>

definition fit_on_load :: "qrect \<Rightarrow> int \<times> int \<Rightarrow> int \<Rightarrow> int \<Rightarrow> qrect \<Rightarrow> qrect" where
  "fit_on_load screen_geo pm extra_w extra_h geo =
     (let max_w = of_int (rect_width screen_geo) * (85 / 100 :: rat);
          max_h = of_int (rect_height screen_geo) * (85 / 100 :: rat);
          max_img_w = max_w - of_int extra_w;
          max_img_h = max_h - of_int extra_h;
          img_w = fst pm;
          img_h = snd pm;
          scale_w = (if img_w > 0 then max_img_w / of_int img_w else 1);
          scale_h = (if img_h > 0 then max_img_h / of_int img_h else 1);
          scale = min scale_w scale_h;
          scale = (if scale > 1 then 1 else scale);
          target_w = py_int (of_int img_w * scale + of_int extra_w);
          target_h = py_int (of_int img_h * scale + of_int extra_h);
          geo = resize_to target_w target_h geo;
          x = x1 screen_geo + (rect_width screen_geo - target_w) div 2;
          y = y1 screen_geo + (rect_height screen_geo - target_h) div 2
      in move_to \<lparr>px = x, py = y\<rparr> geo)"

text \<open>
  \<^verbatim>\<open>load_image\<close>. The decoder is a parameter: it gives the pixel size of the image of a
  file, or \<open>None\<close> when \<^verbatim>\<open>QImage(file_path)\<close> is null.
\<close>

definition load_image :: "(string \<Rightarrow> (int \<times> int) option) \<Rightarrow> env \<Rightarrow> string \<Rightarrow> app \<Rightarrow> error + app" where
  "load_image decode e file_path s =
     (case decode file_path of
        None \<Rightarrow> Inr s
      | Some pm \<Rightarrow>
          (let s = s\<lparr>pixmap := Some pm, title := basename file_path\<rparr>;
               s = (if snd pm > 0
                    then s\<lparr>aspect_ratio := Some (of_int (fst pm) / of_int (snd pm))\<rparr>
                    else s);
               s = s\<lparr>frame_transparent := True\<rparr>;
               extra_w = chrome_extra_w;
               extra_h = chrome_extra_h e
           in case screen e of
                Some screen_geo \<Rightarrow>
                  Inr (s\<lparr>geometry := fit_on_load screen_geo pm extra_w extra_h (geometry s)\<rparr>)
              | None \<Rightarrow>
                  (let target_w = fst pm + extra_w;
                       target_h = snd pm + extra_h
                   in Inr (s\<lparr>geometry := resize_to target_w target_h (geometry s)\<rparr>))))"

text \<open>The two rotation buttons call \<^verbatim>\<open>rotate_image(-90)\<close> and \<^verbatim>\<open>rotate_image(90)\<close>.\<close>

datatype rotation = RotateLeft | RotateRight

definition isNull :: "int \<times> int \<Rightarrow> bool" where
  "isNull pm = (fst pm \<le> 0 \<or> snd pm \<le> 0)"

text \<open>A quarter turn of a pixmap, in either direction, exchanges its width and height.\<close>

definition transformed :: "rotation \<Rightarrow> int \<times> int \<Rightarrow> int \<times> int" where
  "transformed angle pm = (snd pm, fst pm)"

text \<open>Lines 449--479: the window size proposed for the rotated image.\<close>

definition proposed_size :: "env \<Rightarrow> qrect \<Rightarrow> int \<times> int" where
  "proposed_size e geo =
     (let w = rect_width geo;
          h = rect_height geo;
          extra_w = chrome_extra_w;
          extra_h = chrome_extra_h e;
          content_w = max 1 (w - extra_w);
          content_h = max 1 (h - extra_h);
          new_content_w = content_h;
          new_content_h = content_w;
          new_w = new_content_w + extra_w;
          new_h = new_content_h + extra_h
      in (new_w, new_h))"

text \<open>Lines 482--491: scale the proposed size down when it exceeds the screen.\<close>

definition ensure_fits :: "qrect option \<Rightarrow> int \<times> int \<Rightarrow> int \<times> int" where
  "ensure_fits scr sz =
     (let new_w = fst sz; new_h = snd sz
      in case scr of
           None \<Rightarrow> (new_w, new_h)
         | Some screen_geo \<Rightarrow>
             if new_w > rect_width screen_geo \<or> new_h > rect_height screen_geo then
               (let scale_w = of_int (rect_width screen_geo) / of_int new_w;
                    scale_h = of_int (rect_height screen_geo) / of_int new_h;
                    scale = min (min scale_w scale_h) (1 :: rat)
                in (py_int (of_int new_w * scale), py_int (of_int new_h * scale)))
             else (new_w, new_h))"

text \<open>
  \<^verbatim>\<open>rotate_image\<close>. The local \<^verbatim>\<open>screen_geo\<close> is bound inside \<^verbatim>\<open>if screen:\<close> only
  (line 484) and read unconditionally at line 499.
\<close>

definition rotate_image :: "env \<Rightarrow> rotation \<Rightarrow> app \<Rightarrow> error + app" where
  "rotate_image e angle s =
     (case pixmap s of
        None \<Rightarrow> Inr s
      | Some pm \<Rightarrow>
          if isNull pm then Inr s
          else
            (let new_pixmap = transformed angle pm;
                 s = s\<lparr>pixmap := Some new_pixmap\<rparr>;
                 s = (if snd new_pixmap > 0
                      then s\<lparr>aspect_ratio := Some (of_int (fst new_pixmap) / of_int (snd new_pixmap))\<rparr>
                      else s);
                 geo = geometry s;
                 sz = ensure_fits (screen e) (proposed_size e geo);
                 center = center geo;
                 new_geo = QRect 0 0 (fst sz) (snd sz);
                 new_geo = moveCenter center new_geo
             in case screen e of
                  None \<Rightarrow> Inl UnboundLocalError
                | Some screen_geo \<Rightarrow>
                    (let new_geo = (if x1 new_geo < x1 screen_geo
                                    then moveLeft (x1 screen_geo) new_geo else new_geo);
                         new_geo = (if y1 new_geo < y1 screen_geo
                                    then moveTop (y1 screen_geo) new_geo else new_geo)
                     in Inr (s\<lparr>geometry := new_geo\<rparr>))))"


section \<open>Initial state and observations\<close>

text \<open>
  The state left by \<^verbatim>\<open>ImageOverlayApp.__init__\<close> when no file is given: a window of
  500 by 400, no image, margin 10. The constructor does not place the window, so its
  position is a parameter.
\<close>

definition init_app :: "point \<Rightarrow> app" where
  "init_app pos =
     \<lparr>geometry = QRect (px pos) (py pos) 500 400, pixmap = None, title = ''Image Overlay'',
      frame_transparent = False, aspect_ratio = None, resizing = False, dragging = False,
      resize_edge = None, resize_margin = 10, start_pos = None, drag_start_pos = None,
      window_start_pos = None, start_geometry = None, cursor = ArrowCursor\<rparr>"

text \<open>The window size an operation ends with, when it ends without an exception.\<close>

definition window_size :: "error + app \<Rightarrow> (int \<times> int) option" where
  "window_size res =
     (case res of
        Inl err \<Rightarrow> None
      | Inr s \<Rightarrow> Some (rect_width (geometry s), rect_height (geometry s)))"



text \<open>
  The window of the resize scenario: at (100, 100), 500 by 400, margin 10, with an image
  of aspect ratio 1.5 loaded.
\<close>

definition scenario_app :: app where
  "scenario_app =
     (init_app \<lparr>px = 100, py = 100\<rparr>)\<lparr>pixmap := Some (600, 400), aspect_ratio := Some (3 / 2)\<rparr>"

text \<open>The widget heights fixed by the constructor (title bar 30, bottom bar 35), without a screen.\<close>

definition env_no_screen :: env where
  "env_no_screen = \<lparr>title_h = 30, bottom_h = 35, screen = None\<rparr>"








section \<open>Properties\<close>

lemma get_resize_edge_cases:
  "get_resize_edge s pos =
     (if px pos < resize_margin s then 1
      else if px pos > rect_width (geometry s) - resize_margin s then 2 else 0)
     +
     (if py pos < resize_margin s then 4
      else if py pos > rect_height (geometry s) - resize_margin s then 8 else 0)"
  by (simp add: get_resize_edge_def Let_def)

subsection \<open>Edge classification\<close>

text \<open>
  Claim C6. For every pointer position, window rectangle and margin, the Left flag (1) is
  set exactly when the pointer is left of the margin, and the Right flag (2) exactly when
  it is not and the pointer is right of \<open>width - margin\<close>; Top (4) and Bottom (8) likewise.
  So Left and Top win on a window smaller than twice the margin, and the mask never holds
  both Left and Right, nor both Top and Bottom.
\<close>

theorem get_resize_edge_one_direction_per_axis:
  "((get_resize_edge s pos AND 1 \<noteq> 0) = (px pos < resize_margin s)) \<and>
   ((get_resize_edge s pos AND 2 \<noteq> 0) =
      (\<not> px pos < resize_margin s \<and> px pos > rect_width (geometry s) - resize_margin s)) \<and>
   ((get_resize_edge s pos AND 4 \<noteq> 0) = (py pos < resize_margin s)) \<and>
   ((get_resize_edge s pos AND 8 \<noteq> 0) =
      (\<not> py pos < resize_margin s \<and> py pos > rect_height (geometry s) - resize_margin s)) \<and>
   \<not> (get_resize_edge s pos AND 1 \<noteq> 0 \<and> get_resize_edge s pos AND 2 \<noteq> 0) \<and>
   \<not> (get_resize_edge s pos AND 4 \<noteq> 0 \<and> get_resize_edge s pos AND 8 \<noteq> 0)"
  by (simp add: get_resize_edge_cases)

text \<open>
  A window of 15 by 12 with margin 10 and the pointer at (7, 6): both the Left and the
  Right test would trigger, and the mask is Left and Top only.
\<close>

theorem get_resize_edge_narrow_window_witness:
  "px \<lparr>px = 7, py = 6\<rparr>
     < resize_margin ((init_app \<lparr>px = 0, py = 0\<rparr>)\<lparr>geometry := QRect 0 0 15 12\<rparr>) \<and>
   px \<lparr>px = 7, py = 6\<rparr>
     > rect_width (geometry ((init_app \<lparr>px = 0, py = 0\<rparr>)\<lparr>geometry := QRect 0 0 15 12\<rparr>))
       - resize_margin ((init_app \<lparr>px = 0, py = 0\<rparr>)\<lparr>geometry := QRect 0 0 15 12\<rparr>) \<and>
   get_resize_edge ((init_app \<lparr>px = 0, py = 0\<rparr>)\<lparr>geometry := QRect 0 0 15 12\<rparr>)
     \<lparr>px = 7, py = 6\<rparr> AND 1 \<noteq> 0 \<and>
   get_resize_edge ((init_app \<lparr>px = 0, py = 0\<rparr>)\<lparr>geometry := QRect 0 0 15 12\<rparr>)
     \<lparr>px = 7, py = 6\<rparr> AND 2 = 0"
  using get_resize_edge_one_direction_per_axis
    [of "(init_app \<lparr>px = 0, py = 0\<rparr>)\<lparr>geometry := QRect 0 0 15 12\<rparr>" "\<lparr>px = 7, py = 6\<rparr>"]
  by (simp add: init_app_def QRect_def rect_width_def)

subsection \<open>A failed load\<close>

text \<open>
  Claim C10. When the image decoded from the file path is null, \<^verbatim>\<open>load_image\<close> returns at
  once and the whole controller state (pixmap, aspect ratio, geometry, title and the rest)
  is the state before the call.
\<close>

theorem load_image_null_is_noop:
  "decode file_path = None \<Longrightarrow> load_image decode e file_path s = Inr s"
  by (simp add: load_image_def)

theorem load_image_null_witness:
  "load_image (\<lambda>p. None) \<lparr>title_h = 30, bottom_h = 35, screen = Some (QRect 0 0 1920 1080)\<rparr>
     ''broken.png'' (init_app \<lparr>px = 100, py = 100\<rparr>) = Inr (init_app \<lparr>px = 100, py = 100\<rparr>)"
  using load_image_null_is_noop [of "\<lambda>p. None" "''broken.png''"] by simp

subsection \<open>Screen information unavailable\<close>

lemma load_image_no_screen:
  "screen e = None \<Longrightarrow> decode file_path = Some pm \<Longrightarrow>
   window_size (load_image decode e file_path s)
     = Some (fst pm + chrome_extra_w, snd pm + chrome_extra_h e)"
  by (simp add: load_image_def Let_def window_size_def resize_to_def rect_width_def
      rect_height_def)

lemma rotate_image_no_screen:
  "screen e = None \<Longrightarrow> pixmap s = Some pm \<Longrightarrow> \<not> isNull pm \<Longrightarrow>
   rotate_image e angle s = Inl UnboundLocalError"
  by (simp add: rotate_image_def Let_def)

text \<open>
  Claim C1. The claim is that no operation raises, and that a load or a rotation without
  screen information completes with the unscaled size. The load does: an image of 800 by
  600 gives a window of 818 by 683. The rotation that follows does not complete: it reads
  the unbound local \<^verbatim>\<open>screen_geo\<close> and raises \<^verbatim>\<open>UnboundLocalError\<close>.
\<close>

theorem rotate_image_without_screen_raises:
  "window_size (load_image (\<lambda>p. Some (800, 600)) env_no_screen ''photo.png''
      (init_app \<lparr>px = 100, py = 100\<rparr>)) = Some (818, 683) \<and>
   (case load_image (\<lambda>p. Some (800, 600)) env_no_screen ''photo.png''
           (init_app \<lparr>px = 100, py = 100\<rparr>) of
      Inl err \<Rightarrow> Inl err
    | Inr s \<Rightarrow> rotate_image env_no_screen RotateRight s) = Inl UnboundLocalError"
  by (simp add: load_image_def rotate_image_def Let_def init_app_def isNull_def
      env_no_screen_def window_size_def resize_to_def rect_width_def rect_height_def
      QRect_def chrome_extra_w_def chrome_extra_h_def)

subsection \<open>Chrome extents of the resize path\<close>

text \<open>
  Claim C3. The claim is that the resize path reads the chrome extents from the widgets as
  load and rotate do. It does not: \<^verbatim>\<open>handle_resize\<close> takes no widget height and uses the
  literal 78, while load and rotate compute 83 from the title bar (30) and the bottom bar
  (35).
\<close>

theorem resize_chrome_extent_differs:
  "chrome_extra_h \<lparr>title_h = 30, bottom_h = 35, screen = Some (QRect 0 0 1920 1080)\<rparr> = 83 \<and>
   resize_extra_h = 78"
  by (simp add: chrome_extra_h_def resize_extra_h_def)

subsection \<open>The resize scenario\<close>

lemma height_from_width_scenario: "height_from_width (3 / 2) 550 = 432"
  by code_simp

lemma scenario_run:
  "window_size (run_events [Press \<lparr>px = 600, py = 300\<rparr>, Move \<lparr>px = 650, py = 300\<rparr>]
      scenario_app) = Some (550, 432)"
  by (simp add: scenario_app_def init_app_def handle_mouse_press_def handle_mouse_move_def
      handle_resize_def mapFromGlobal_def get_resize_edge_cases QRect_def rect_width_def
      rect_height_def point_sub_def topLeft_def rough_geometry_def enforce_aspect_def
      setRight_def setHeight_def minimum_size_def window_size_def Let_def
      height_from_width_scenario)

text \<open>
  Claim C4, as stated: after the press at (600, 300) and the move to (650, 300) the window
  is 550 wide and 433 high. The height is not 433.
\<close>

theorem scenario_height_not_433:
  "window_size (run_events [Press \<lparr>px = 600, py = 300\<rparr>, Move \<lparr>px = 650, py = 300\<rparr>]
      scenario_app) \<noteq> Some (550, 433)"
  unfolding scenario_run by simp

text \<open>
  Claim C4, amended: the press classifies as the Right edge (mask 2), and after the move
  the window is 550 wide and 432 high: the content height 532 / 1.5 plus 78 is
  432.67, which \<^verbatim>\<open>int\<close> truncates.
\<close>

theorem scenario_width_550_height_432:
  "get_resize_edge scenario_app (mapFromGlobal scenario_app \<lparr>px = 600, py = 300\<rparr>) = 2 \<and>
   window_size (run_events [Press \<lparr>px = 600, py = 300\<rparr>, Move \<lparr>px = 650, py = 300\<rparr>]
      scenario_app) = Some (550, 432)"
  unfolding scenario_run
  by (simp add: scenario_app_def init_app_def mapFromGlobal_def get_resize_edge_cases
      QRect_def rect_width_def rect_height_def point_sub_def topLeft_def)

subsection \<open>Drag-move\<close>






subsection \<open>Minimum size\<close>







subsection \<open>Corner drags under the aspect constraint\<close>






subsection \<open>Placement after a rotation\<close>







subsection \<open>Rotation and the content size\<close>












end
